theory Spec2Isabelle
  imports Main
begin

section \<open>The conditional logging facade of \<^verbatim>\<open>src/tracktor/comet_utils.py\<close>\<close>

text \<open>
  The module wraps the experiment-tracking client \<^verbatim>\<open>comet_ml\<close>. The class
  \<^verbatim>\<open>CometLogger\<close> keeps a tri-state flag \<^verbatim>\<open>_logging\<close> (\<^verbatim>\<open>None\<close>, \<^verbatim>\<open>False\<close>,
  \<^verbatim>\<open>True\<close>), the keyword arguments of its construction and, once created, the handle
  of the underlying experiment. Every public method is decorated with
  \<^verbatim>\<open>_requiresComet\<close>, which creates the experiment on first use.

  The client library is not part of the module: it is a parameter of the model, a
  record of state transformers over the library's process-wide state. A call of the
  client returns normally or raises, and changes the library's state either way.
\<close>

subsection \<open>Python values and exceptions\<close>

text \<open>
  The arguments of the logging methods are forwarded and never inspected, so a small
  universe of Python values is enough. A float is \<open>PyFloat m e\<close> for \<open>m * 2 ^ e\<close>;
  \<open>PyNaN\<close> is the float \<^verbatim>\<open>nan\<close>; \<open>PyObj n\<close> is an opaque object (a tensor, a file).
\<close>

datatype pyval =
    PyNone
  | PyBool bool
  | PyInt int
  | PyFloat int int
  | PyNaN
  | PyStr string
  | PyObj nat

text \<open>
  What a \<^verbatim>\<open>raise\<close> carries. \<open>Exception c\<close> is an instance of the class
  \<^verbatim>\<open>Exception\<close> or of a subclass of it (\<open>c\<close> tells which, with its message);
  \<open>BaseException c\<close> is an instance of a class that derives from
  \<^verbatim>\<open>BaseException\<close> only (\<^verbatim>\<open>KeyboardInterrupt\<close>, \<^verbatim>\<open>SystemExit\<close>), which the clause
  \<^verbatim>\<open>except Exception\<close> does not catch.
\<close>

datatype exn =
    Exception string
  | BaseException string

fun is_Exception :: "exn \<Rightarrow> bool" where
  "is_Exception (Exception c) = True"
| "is_Exception (BaseException c) = False"

type_synonym kwargs = "(string \<times> pyval) list"

type_synonym handle = nat

subsection \<open>The public methods and their signatures\<close>

datatype public_method =
    End
  | Log_metric
  | Log_model
  | Log_image
  | Log_code
  | Log_asset
  | Add_tag

text \<open>
  The parameters of each method after \<^verbatim>\<open>self\<close>, in the order of its \<^verbatim>\<open>def\<close>, each
  with its default value when it has one.
\<close>

fun params :: "public_method \<Rightarrow> (string \<times> pyval option) list" where
  "params End = []"
| "params Log_metric =
     [(''name'', None), (''value'', None), (''step'', Some PyNone),
      (''epoch'', Some PyNone), (''include_context'', Some (PyBool True))]"
| "params Log_model =
     [(''name'', None), (''file_or_folder'', None), (''file_name'', Some PyNone)]"
| "params Log_image =
     [(''image_data'', None), (''name'', Some PyNone), (''overwrite'', Some (PyBool False)),
      (''image_format'', Some (PyStr ''png'')), (''image_scale'', Some (PyFloat 1 0)),
      (''image_shape'', Some PyNone), (''image_colormap'', Some PyNone),
      (''image_minmax'', Some PyNone), (''image_channels'', Some (PyStr ''last'')),
      (''copy_to_tmp'', Some (PyBool True)), (''step'', Some PyNone)]"
| "params Log_code =
     [(''file_name'', Some PyNone), (''folder'', Some PyNone), (''code'', Some PyNone),
      (''code_name'', Some PyNone)]"
| "params Log_asset =
     [(''file_data'', None), (''file_name'', Some PyNone), (''overwrite'', Some (PyBool False)),
      (''copy_to_tmp'', Some (PyBool True)), (''step'', Some PyNone),
      (''metadata'', Some PyNone)]"
| "params Add_tag = [(''tag'', None)]"

text \<open>
  Python's binding of the positional and keyword arguments of a call to the parameters
  of the callee. Too many positional arguments, a parameter given twice, an unknown
  keyword and a missing required argument all raise \<^verbatim>\<open>TypeError\<close>. The result lists
  the values of the parameters in the order of the signature.
\<close>

fun bind_args :: "(string \<times> pyval option) list \<Rightarrow> pyval list \<Rightarrow> kwargs \<Rightarrow> exn + pyval list" where
  "bind_args [] [] kw = (if kw = [] then Inr [] else Inl (Exception ''TypeError''))"
| "bind_args [] (a # as) kw = Inl (Exception ''TypeError'')"
| "bind_args ((n, d) # ps) (a # as) kw =
     (if map_of kw n \<noteq> None then Inl (Exception ''TypeError'')
      else (case bind_args ps as kw of
              Inl e \<Rightarrow> Inl e
            | Inr vs \<Rightarrow> Inr (a # vs)))"
| "bind_args ((n, d) # ps) [] kw =
     (case (case map_of kw n of Some v \<Rightarrow> Some v | None \<Rightarrow> d) of
        None \<Rightarrow> Inl (Exception ''TypeError'')
      | Some v \<Rightarrow>
          (case bind_args ps [] (filter (\<lambda>kv. fst kv \<noteq> n) kw) of
             Inl e \<Rightarrow> Inl e
           | Inr vs \<Rightarrow> Inr (v # vs)))"

subsection \<open>The process: the client library, the logging sink\<close>

text \<open>
  The state of the client library: the module-level slot \<^verbatim>\<open>comet_ml.config.experiment\<close>,
  which the method \<^verbatim>\<open>end\<close> assigns, and everything else the library and the service
  behind it hold (\<open>internals\<close>).
\<close>

record 'c lib =
  config_experiment :: "handle option"
  internals :: 'c

text \<open>
  The client as the module uses it: \<^verbatim>\<open>comet_ml.init()\<close>,
  \<^verbatim>\<open>comet_ml.get_global_experiment()\<close>, \<^verbatim>\<open>comet_ml.Experiment(**kwargs)\<close> and the
  methods of an experiment, called with positional arguments.
\<close>

record 'c client =
  cm_init :: "'c lib \<Rightarrow> (exn + unit) \<times> 'c lib"
  cm_get_global_experiment :: "'c lib \<Rightarrow> (exn + handle option) \<times> 'c lib"
  cm_Experiment :: "kwargs \<Rightarrow> 'c lib \<Rightarrow> (exn + handle) \<times> 'c lib"
  cm_method :: "handle \<Rightarrow> public_method \<Rightarrow> pyval list \<Rightarrow> 'c lib \<Rightarrow> (exn + unit) \<times> 'c lib"

text \<open>The records the module sends to the sink with \<^verbatim>\<open>logging.warning\<close>.\<close>

datatype log_record =
    Clash_warning
  | Exception_warning exn

text \<open>The calls of the client, in the order the module makes them (an observation).\<close>

datatype call =
    Call_init
  | Call_get_global_experiment
  | Call_Experiment kwargs
  | Call_method handle public_method "pyval list"

record 'c process =
  library :: "'c lib"
  warnings :: "log_record list"
  calls :: "call list"

subsection \<open>The class \<^verbatim>\<open>CometLogger\<close>\<close>

text \<open>
  The attributes of an instance. \<open>logging\<close> is \<^verbatim>\<open>_logging\<close>; \<open>experiment_attr\<close> is
  \<^verbatim>\<open>_experiment\<close>, \<open>None\<close> while the attribute has not been assigned.
\<close>

record guard =
  logging :: "bool option"
  comet_args :: kwargs
  experiment_attr :: "handle option"

datatype session_state = UNINITIALIZED | ACTIVE | DISABLED

text \<open>The state of the session, in the words of the specification.\<close>

definition state_of :: "guard \<Rightarrow> session_state" where
  "state_of self =
     (case logging self of
        None \<Rightarrow> UNINITIALIZED
      | Some True \<Rightarrow> ACTIVE
      | Some False \<Rightarrow> DISABLED)"

text \<open>
  \<^verbatim>\<open>__init__(self, comet=False, **kwargs)\<close>, with the module's global
  \<^verbatim>\<open>comet_installed\<close> as a parameter. The constructor returns the instance or raises
  \<^verbatim>\<open>Exception("Comet not installed. Run 'pip install comet-ml'")\<close>.
\<close>

definition not_installed_message :: string where
  "not_installed_message = ''Comet not installed. Run 'pip install comet-ml'' @ [CHR 0x27]"

definition CometLogger_init :: "bool \<Rightarrow> bool \<Rightarrow> kwargs \<Rightarrow> exn + guard" where
  "CometLogger_init comet_installed comet kwargs =
     (let self = \<lparr>logging = None, comet_args = kwargs, experiment_attr = None\<rparr> in
      if comet = False then Inr (self\<lparr>logging := Some False\<rparr>)
      else if comet = True \<and> comet_installed = False
        then Inl (Exception not_installed_message)
      else Inr self)"

subsection \<open>The methods, before decoration\<close>

text \<open>
  A method call \<^verbatim>\<open>self._experiment.m(v1, ..., vn)\<close>: reading the attribute raises
  \<^verbatim>\<open>AttributeError\<close> when it was never assigned; otherwise the client's method runs
  on the handle, and what it raises propagates.
\<close>

definition call_experiment ::
  "'c client \<Rightarrow> guard \<Rightarrow> public_method \<Rightarrow> pyval list \<Rightarrow> 'c process \<Rightarrow> (exn + unit) \<times> 'c process" where
  "call_experiment cl self m vs p =
     (case experiment_attr self of
        None \<Rightarrow> (Inl (Exception ''AttributeError''), p)
      | Some h \<Rightarrow>
          (let (r, l) = cm_method cl h m vs (library p) in
           (r, p\<lparr>library := l, calls := calls p @ [Call_method h m vs]\<rparr>)))"

text \<open>
  \<^verbatim>\<open>end(self)\<close>: ends the experiment, then clears \<^verbatim>\<open>comet_ml.config.experiment\<close>.
  The assignment is not reached when the first statement raises.
\<close>

definition end_method :: "'c client \<Rightarrow> guard \<Rightarrow> 'c process \<Rightarrow> (exn + unit) \<times> 'c process" where
  "end_method cl self p =
     (case call_experiment cl self End [] p of
        (Inl e, p') \<Rightarrow> (Inl e, p')
      | (Inr u, p') \<Rightarrow> (Inr (), p'\<lparr>library := (library p')\<lparr>config_experiment := None\<rparr>\<rparr>))"

definition log_metric ::
  "'c client \<Rightarrow> guard \<Rightarrow> pyval \<Rightarrow> pyval \<Rightarrow> pyval \<Rightarrow> pyval \<Rightarrow> pyval \<Rightarrow> 'c process
     \<Rightarrow> (exn + unit) \<times> 'c process" where
  "log_metric cl self name value step epoch include_context p =
     call_experiment cl self Log_metric [name, value, step, epoch, include_context] p"

definition log_model ::
  "'c client \<Rightarrow> guard \<Rightarrow> pyval \<Rightarrow> pyval \<Rightarrow> pyval \<Rightarrow> 'c process \<Rightarrow> (exn + unit) \<times> 'c process" where
  "log_model cl self name file_or_folder file_name p =
     call_experiment cl self Log_model [name, file_or_folder, file_name] p"

definition log_image ::
  "'c client \<Rightarrow> guard \<Rightarrow> pyval \<Rightarrow> pyval \<Rightarrow> pyval \<Rightarrow> pyval \<Rightarrow> pyval \<Rightarrow> pyval \<Rightarrow> pyval \<Rightarrow> pyval
     \<Rightarrow> pyval \<Rightarrow> pyval \<Rightarrow> pyval \<Rightarrow> 'c process \<Rightarrow> (exn + unit) \<times> 'c process" where
  "log_image cl self image_data name overwrite image_format image_scale image_shape
       image_colormap image_minmax image_channels copy_to_tmp step p =
     call_experiment cl self Log_image
       [image_data, name, overwrite, image_format, image_scale, image_shape,
        image_colormap, image_minmax, image_channels, copy_to_tmp, step] p"

definition log_code ::
  "'c client \<Rightarrow> guard \<Rightarrow> pyval \<Rightarrow> pyval \<Rightarrow> pyval \<Rightarrow> pyval \<Rightarrow> 'c process
     \<Rightarrow> (exn + unit) \<times> 'c process" where
  "log_code cl self file_name folder code code_name p =
     call_experiment cl self Log_code [file_name, folder, code, code_name] p"

definition log_asset ::
  "'c client \<Rightarrow> guard \<Rightarrow> pyval \<Rightarrow> pyval \<Rightarrow> pyval \<Rightarrow> pyval \<Rightarrow> pyval \<Rightarrow> pyval \<Rightarrow> 'c process
     \<Rightarrow> (exn + unit) \<times> 'c process" where
  "log_asset cl self file_data file_name overwrite copy_to_tmp step metadata p =
     call_experiment cl self Log_asset
       [file_data, file_name, overwrite, copy_to_tmp, step, metadata] p"

definition add_tag :: "'c client \<Rightarrow> guard \<Rightarrow> pyval \<Rightarrow> 'c process \<Rightarrow> (exn + unit) \<times> 'c process" where
  "add_tag cl self tag p = call_experiment cl self Add_tag [tag] p"

text \<open>
  The body of method \<open>m\<close> on the values bound to its parameters. The last case of each
  \<open>case\<close> is never taken after \<open>bind_args\<close>, which returns one value per parameter.
\<close>

definition method_body ::
  "'c client \<Rightarrow> public_method \<Rightarrow> guard \<Rightarrow> pyval list \<Rightarrow> 'c process \<Rightarrow> (exn + unit) \<times> 'c process" where
  "method_body cl m self vs p =
     (case m of
        End \<Rightarrow>
          (case vs of [] \<Rightarrow> end_method cl self p
           | _ \<Rightarrow> (Inl (Exception ''TypeError''), p))
      | Log_metric \<Rightarrow>
          (case vs of [a1, a2, a3, a4, a5] \<Rightarrow> log_metric cl self a1 a2 a3 a4 a5 p
           | _ \<Rightarrow> (Inl (Exception ''TypeError''), p))
      | Log_model \<Rightarrow>
          (case vs of [a1, a2, a3] \<Rightarrow> log_model cl self a1 a2 a3 p
           | _ \<Rightarrow> (Inl (Exception ''TypeError''), p))
      | Log_image \<Rightarrow>
          (case vs of [a1, a2, a3, a4, a5, a6, a7, a8, a9, a10, a11] \<Rightarrow>
             log_image cl self a1 a2 a3 a4 a5 a6 a7 a8 a9 a10 a11 p
           | _ \<Rightarrow> (Inl (Exception ''TypeError''), p))
      | Log_code \<Rightarrow>
          (case vs of [a1, a2, a3, a4] \<Rightarrow> log_code cl self a1 a2 a3 a4 p
           | _ \<Rightarrow> (Inl (Exception ''TypeError''), p))
      | Log_asset \<Rightarrow>
          (case vs of [a1, a2, a3, a4, a5, a6] \<Rightarrow> log_asset cl self a1 a2 a3 a4 a5 a6 p
           | _ \<Rightarrow> (Inl (Exception ''TypeError''), p))
      | Add_tag \<Rightarrow>
          (case vs of [a1] \<Rightarrow> add_tag cl self a1 p
           | _ \<Rightarrow> (Inl (Exception ''TypeError''), p)))"

text \<open>
  The call \<^verbatim>\<open>method(*args, **kwargs)\<close> of an undecorated method: the arguments after
  \<^verbatim>\<open>self\<close> are bound to the parameters, then the body runs.
\<close>

definition call_method ::
  "'c client \<Rightarrow> public_method \<Rightarrow> guard \<Rightarrow> pyval list \<Rightarrow> kwargs \<Rightarrow> 'c process
     \<Rightarrow> (exn + unit) \<times> 'c process" where
  "call_method cl m self args kw p =
     (case bind_args (params m) args kw of
        Inl e \<Rightarrow> (Inl e, p)
      | Inr vs \<Rightarrow> method_body cl m self vs p)"

subsection \<open>The decorator \<^verbatim>\<open>_requiresComet\<close>\<close>

text \<open>
  The body of the \<^verbatim>\<open>try\<close> block: \<^verbatim>\<open>comet_ml.init()\<close>, the warning when a global
  experiment exists already, \<^verbatim>\<open>comet_ml.Experiment(**self._comet_args)\<close>, and the two
  assignments. The first statement that raises ends the block.
\<close>

definition try_body :: "'c client \<Rightarrow> guard \<Rightarrow> 'c process \<Rightarrow> (exn + unit) \<times> guard \<times> 'c process" where
  "try_body cl self p =
     (let (r1, l1) = cm_init cl (library p);
          p1 = p\<lparr>library := l1, calls := calls p @ [Call_init]\<rparr>
      in case r1 of
           Inl e \<Rightarrow> (Inl e, self, p1)
         | Inr u \<Rightarrow>
             (let (r2, l2) = cm_get_global_experiment cl (library p1);
                  p2 = p1\<lparr>library := l2, calls := calls p1 @ [Call_get_global_experiment]\<rparr>
              in case r2 of
                   Inl e \<Rightarrow> (Inl e, self, p2)
                 | Inr g \<Rightarrow>
                     (let p3 = (if g \<noteq> None
                                then p2\<lparr>warnings := warnings p2 @ [Clash_warning]\<rparr>
                                else p2);
                          (r4, l4) = cm_Experiment cl (comet_args self) (library p3);
                          p4 = p3\<lparr>library := l4,
                                  calls := calls p3 @ [Call_Experiment (comet_args self)]\<rparr>
                      in case r4 of
                           Inl e \<Rightarrow> (Inl e, self, p4)
                         | Inr h \<Rightarrow>
                             (Inr (), self\<lparr>experiment_attr := Some h, logging := Some True\<rparr>, p4))))"

text \<open>
  The \<^verbatim>\<open>try\<close> statement: \<^verbatim>\<open>except Exception as e: logging.warning(e)\<close> catches the
  instances of \<^verbatim>\<open>Exception\<close>; anything else propagates.
\<close>

definition activate :: "'c client \<Rightarrow> guard \<Rightarrow> 'c process \<Rightarrow> (exn + unit) \<times> guard \<times> 'c process" where
  "activate cl self p =
     (case try_body cl self p of
        (Inl e, self', p') \<Rightarrow>
          (if is_Exception e
           then (Inr (), self', p'\<lparr>warnings := warnings p' @ [Exception_warning e]\<rparr>)
           else (Inl e, self', p'))
      | (Inr u, self', p') \<Rightarrow> (Inr (), self', p'))"

text \<open>
  The wrapper that replaces a decorated method. \<open>comet_installed\<close> is the module's
  global. The wrapper returns what the method returns, which is \<^verbatim>\<open>None\<close> for every
  method of the class, or \<^verbatim>\<open>None\<close> itself when the method is skipped.
\<close>

definition requiresComet ::
  "bool \<Rightarrow> 'c client
     \<Rightarrow> (guard \<Rightarrow> pyval list \<Rightarrow> kwargs \<Rightarrow> 'c process \<Rightarrow> (exn + unit) \<times> 'c process)
     \<Rightarrow> guard \<Rightarrow> pyval list \<Rightarrow> kwargs \<Rightarrow> 'c process \<Rightarrow> (exn + unit) \<times> guard \<times> 'c process" where
  "requiresComet comet_installed cl method self args kw p =
     (let (r, self1, p1) =
            (if logging self = None \<and> comet_installed
             then activate cl (self\<lparr>logging := Some False\<rparr>) p
             else (Inr (), self, p))
      in case r of
           Inl e \<Rightarrow> (Inl e, self1, p1)
         | Inr u \<Rightarrow>
             (if logging self1 = Some True
              then (let (r', p') = method self1 args kw p1 in (r', self1, p'))
              else (Inr (), self1, p1)))"

text \<open>A call \<^verbatim>\<open>self.m(*args, **kwargs)\<close> of a public method: the decorated method runs.\<close>

definition invoke ::
  "bool \<Rightarrow> 'c client \<Rightarrow> guard \<Rightarrow> public_method \<times> pyval list \<times> kwargs \<Rightarrow> 'c process
     \<Rightarrow> (exn + unit) \<times> guard \<times> 'c process" where
  "invoke comet_installed cl self c p =
     (case c of (m, args, kw) \<Rightarrow>
        requiresComet comet_installed cl (call_method cl m) self args kw p)"

text \<open>
  A caller making the calls \<open>cs\<close> one after the other on the same instance, going on
  after a call that raised (having caught the exception). The results are listed in
  the order of the calls.
\<close>

fun run ::
  "bool \<Rightarrow> 'c client \<Rightarrow> guard \<Rightarrow> (public_method \<times> pyval list \<times> kwargs) list \<Rightarrow> 'c process
     \<Rightarrow> (exn + unit) list \<times> guard \<times> 'c process" where
  "run comet_installed cl self [] p = ([], self, p)"
| "run comet_installed cl self (c # cs) p =
     (case invoke comet_installed cl self c p of
        (r, self', p') \<Rightarrow>
          (case run comet_installed cl self' cs p' of
             (rs, self'', p'') \<Rightarrow> (r # rs, self'', p'')))"

subsection \<open>A stand-in client\<close>

text \<open>
  A client to evaluate the model on: handles are numbered from the counter in
  \<open>internals\<close>, a new experiment becomes the global one, and \<^verbatim>\<open>init\<close>,
  \<^verbatim>\<open>Experiment\<close> and the methods of an experiment each raise the exception given for
  them, if any.
\<close>

definition stub_client :: "exn option \<Rightarrow> exn option \<Rightarrow> exn option \<Rightarrow> nat client" where
  "stub_client init_raises experiment_raises method_raises =
     \<lparr>cm_init = (\<lambda>l. (case init_raises of Some e \<Rightarrow> Inl e | None \<Rightarrow> Inr (), l)),
      cm_get_global_experiment = (\<lambda>l. (Inr (config_experiment l), l)),
      cm_Experiment = (\<lambda>kw l.
        (case experiment_raises of
           Some e \<Rightarrow> (Inl e, l)
         | None \<Rightarrow>
             (Inr (internals l),
              l\<lparr>config_experiment := Some (internals l), internals := Suc (internals l)\<rparr>))),
      cm_method = (\<lambda>h m vs l. (case method_raises of Some e \<Rightarrow> Inl e | None \<Rightarrow> Inr (), l))\<rparr>"

definition fresh_process :: "nat process" where
  "fresh_process = \<lparr>library = \<lparr>config_experiment = None, internals = 0\<rparr>, warnings = [], calls = []\<rparr>"

text \<open>Inputs to evaluate the model on.\<close>

definition demo_guard :: guard where
  "demo_guard = \<lparr>logging = None, comet_args = [(''project_name'', PyStr ''tracktor'')], experiment_attr = None\<rparr>"

definition demo_calls :: "(public_method \<times> pyval list \<times> kwargs) list" where
  "demo_calls =
     [(Log_metric, [PyStr ''loss'', PyFloat 3 (-2)], [(''step'', PyInt 1)]),
      (Add_tag, [PyStr ''baseline''], []),
      (End, [], []),
      (Log_metric, [PyStr ''x'', PyNaN], [])]"

text \<open>A process in which an experiment, created by hand, is the global one already.\<close>

definition clash_process :: "nat process" where
  "clash_process =
     \<lparr>library = \<lparr>config_experiment = Some 7, internals = 8\<rparr>, warnings = [], calls = []\<rparr>"

subsection \<open>Observations\<close>

fun is_Experiment_call :: "call \<Rightarrow> bool" where
  "is_Experiment_call (Call_Experiment kw) = True"
| "is_Experiment_call c = False"

text \<open>How many times \<^verbatim>\<open>comet_ml.Experiment\<close> has been called in a process.\<close>

definition sessions_created :: "'c process \<Rightarrow> nat" where
  "sessions_created p = length (filter is_Experiment_call (calls p))"

text \<open>How many clash warnings the sink holds.\<close>

definition clash_warnings :: "'c process \<Rightarrow> nat" where
  "clash_warnings p = length (filter (\<lambda>w. w = Clash_warning) (warnings p))"

section \<open>Properties\<close>

subsection \<open>Auxiliary facts\<close>

text \<open>
  The binding returns one value per parameter, so the bodies of the methods always
  reach their forwarding call.
\<close>

lemma bind_args_length: "bind_args ps as kw = Inr vs \<Longrightarrow> length vs = length ps"
  by (induction ps as kw arbitrary: vs rule: bind_args.induct)
     (auto split: if_splits sum.splits option.splits)

lemma call_experiment_set:
  "experiment_attr self = Some h \<Longrightarrow>
   call_experiment cl self m vs p =
     (fst (cm_method cl h m vs (library p)),
      p\<lparr>library := snd (cm_method cl h m vs (library p)), calls := calls p @ [Call_method h m vs]\<rparr>)"
  by (simp add: call_experiment_def split: prod.splits)

lemma method_body_other:
  "length vs = length (params m) \<Longrightarrow> m \<noteq> End \<Longrightarrow> method_body cl m self vs p = call_experiment cl self m vs p"
  by (cases m)
     (auto simp: method_body_def log_metric_def log_model_def log_image_def log_code_def
        log_asset_def add_tag_def length_Suc_conv split: list.splits)

lemma method_body_End: "method_body cl End self [] p = end_method cl self p"
  by (simp add: method_body_def)

text \<open>
  The methods themselves log nothing and never call \<^verbatim>\<open>comet_ml.Experiment\<close>.
\<close>

lemma call_experiment_frame:
  assumes "call_experiment cl self m vs p = (r, p')"
  shows "warnings p' = warnings p \<and> sessions_created p' = sessions_created p"
  using assms
  by (auto simp: call_experiment_def sessions_created_def split: option.splits prod.splits)

lemma end_method_frame:
  assumes "end_method cl self p = (r, p')"
  shows "warnings p' = warnings p \<and> sessions_created p' = sessions_created p"
  using assms call_experiment_frame [of cl self End "[]" p]
  by (auto simp: end_method_def sessions_created_def split: prod.splits sum.splits)

lemma method_body_frame:
  assumes "method_body cl m self vs p = (r, p')"
  shows "warnings p' = warnings p \<and> sessions_created p' = sessions_created p"
proof (cases m)
  case End
  with assms show ?thesis
    using end_method_frame [of cl self p r p']
    by (auto simp: method_body_def split: list.splits)
qed (use assms in \<open>auto simp: method_body_def log_metric_def log_model_def log_image_def
       log_code_def log_asset_def add_tag_def split: list.splits
       dest: call_experiment_frame\<close>)

lemma call_method_frame:
  assumes "call_method cl m self args kw p = (r, p')"
  shows "warnings p' = warnings p \<and> sessions_created p' = sessions_created p"
  using assms by (auto simp: call_method_def split: sum.splits dest: method_body_frame)

text \<open>
  What a call of a decorated method does in each of the three states of \<^verbatim>\<open>_logging\<close>.
\<close>

lemma invoke_disabled:
  "logging self = Some False \<Longrightarrow> invoke inst cl self c p = (Inr (), self, p)"
  by (simp add: invoke_def requiresComet_def split: prod.splits)

lemma invoke_not_installed:
  "logging self = None \<Longrightarrow> invoke False cl self c p = (Inr (), self, p)"
  by (simp add: invoke_def requiresComet_def split: prod.splits)

lemma invoke_active:
  "logging self = Some True \<Longrightarrow>
   invoke inst cl self (m, args, kw) p =
     (fst (call_method cl m self args kw p), self, snd (call_method cl m self args kw p))"
  by (simp add: invoke_def requiresComet_def split: prod.splits)

lemma invoke_uninitialized:
  "logging self = None \<Longrightarrow>
   invoke True cl self (m, args, kw) p =
     (case activate cl (self\<lparr>logging := Some False\<rparr>) p of
        (Inl e, self1, p1) \<Rightarrow> (Inl e, self1, p1)
      | (Inr u, self1, p1) \<Rightarrow>
          (if logging self1 = Some True
           then (fst (call_method cl m self1 args kw p1), self1, snd (call_method cl m self1 args kw p1))
           else (Inr (), self1, p1)))"
  by (simp add: invoke_def requiresComet_def split: prod.splits sum.splits)

lemma run_disabled:
  "logging self = Some False \<Longrightarrow> run inst cl self cs p = (replicate (length cs) (Inr ()), self, p)"
  by (induction cs) (simp_all add: invoke_disabled)

text \<open>
  The \<^verbatim>\<open>try\<close> block either raises and leaves the instance as it was, or assigns
  \<^verbatim>\<open>_experiment\<close> and sets \<^verbatim>\<open>_logging\<close> to \<^verbatim>\<open>True\<close> after exactly one call of
  \<^verbatim>\<open>comet_ml.Experiment\<close>.
\<close>

lemma try_body_cases:
  assumes "try_body cl self p = (r, self', p')"
  shows "(\<exists>e. r = Inl e \<and> self' = self \<and> sessions_created p' \<le> Suc (sessions_created p)) \<or>
         (\<exists>h. r = Inr () \<and> self' = self\<lparr>experiment_attr := Some h, logging := Some True\<rparr> \<and>
              sessions_created p' = Suc (sessions_created p))"
  using assms
  by (auto simp: try_body_def Let_def sessions_created_def split: prod.splits sum.splits if_splits)

lemma invoke_settled:
  assumes "logging self \<noteq> None" and "invoke inst cl self c p = (r, self', p')"
  shows "self' = self \<and> warnings p' = warnings p \<and> sessions_created p' = sessions_created p"
proof (cases "logging self = Some True")
  case True
  obtain m args kw where c: "c = (m, args, kw)" by (cases c)
  from True assms(2) show ?thesis
    unfolding c invoke_active [OF True]
    using call_method_frame [of cl m self args kw p] by (auto simp: prod_eq_iff)
next
  case False
  with assms(1) have "logging self = Some False" by auto
  with assms(2) show ?thesis by (simp add: invoke_disabled)
qed

lemma run_settled:
  assumes "logging self \<noteq> None" and "run inst cl self cs p = (rs, self', p')"
  shows "self' = self \<and> warnings p' = warnings p \<and> sessions_created p' = sessions_created p"
  using assms
proof (induction cs arbitrary: p rs self' p')
  case Nil
  then show ?case by simp
next
  case (Cons c cs)
  obtain r s1 p1 where i: "invoke inst cl self c p = (r, s1, p1)" by (cases "invoke inst cl self c p")
  from invoke_settled [OF Cons.prems(1) i]
  have s1: "s1 = self" and f1: "warnings p1 = warnings p" "sessions_created p1 = sessions_created p"
    by simp_all
  obtain rs' s2 p2 where r: "run inst cl self cs p1 = (rs', s2, p2)" by (cases "run inst cl self cs p1")
  from Cons.IH [OF Cons.prems(1) r] f1 Cons.prems(2) i r s1 show ?case by simp
qed

lemma activate_cases:
  assumes "activate cl self p = (r, self', p')"
  shows "(self' = self \<or> (\<exists>h. self' = self\<lparr>experiment_attr := Some h, logging := Some True\<rparr>)) \<and>
         sessions_created p' \<le> Suc (sessions_created p)"
proof -
  obtain r0 s0 p0 where t: "try_body cl self p = (r0, s0, p0)" by (cases "try_body cl self p")
  from try_body_cases [OF t] assms show ?thesis
    by (auto simp: activate_def t sessions_created_def split: if_splits)
qed

lemma invoke_logging_not_None:
  assumes "invoke True cl self c p = (r, self', p')"
  shows "logging self' \<noteq> None"
proof (cases "logging self = None")
  case True
  obtain m args kw where c: "c = (m, args, kw)" by (cases c)
  obtain r1 s1 p1 where a: "activate cl (self\<lparr>logging := Some False\<rparr>) p = (r1, s1, p1)"
    by (cases "activate cl (self\<lparr>logging := Some False\<rparr>) p")
  from activate_cases [OF a] have "logging s1 \<noteq> None" by auto
  with assms show ?thesis
    unfolding c invoke_uninitialized [OF True] a by (auto split: sum.splits if_splits)
next
  case False
  with invoke_settled [OF False assms] show ?thesis by simp
qed

lemma invoke_sessions_le:
  assumes "invoke inst cl self c p = (r, self', p')"
  shows "sessions_created p' \<le> Suc (sessions_created p)"
proof (cases "logging self = None \<and> inst")
  case True
  then have u: "logging self = None" and inst: "inst = True" by simp_all
  obtain m args kw where c: "c = (m, args, kw)" by (cases c)
  obtain r1 s1 p1 where a: "activate cl (self\<lparr>logging := Some False\<rparr>) p = (r1, s1, p1)"
    by (cases "activate cl (self\<lparr>logging := Some False\<rparr>) p")
  from activate_cases [OF a] have le: "sessions_created p1 \<le> Suc (sessions_created p)" by simp
  have "sessions_created (snd (call_method cl m s1 args kw p1)) = sessions_created p1"
    using call_method_frame [of cl m s1 args kw p1] by (simp add: prod_eq_iff)
  with le assms show ?thesis
    unfolding c inst invoke_uninitialized [OF u] a by (auto split: sum.splits if_splits)
next
  case False
  show ?thesis
  proof (cases "logging self = None")
    case True
    with False have "inst = False" by simp
    with True assms show ?thesis by (simp add: invoke_not_installed)
  next
    case False
    from invoke_settled [OF False assms] show ?thesis by simp
  qed
qed

lemma run_settled_self:
  assumes "logging self \<noteq> None"
  shows "fst (snd (run inst cl self cs p)) = self"
proof -
  obtain rs s' p' where r: "run inst cl self cs p = (rs, s', p')"
    by (cases "run inst cl self cs p")
  from run_settled [OF assms r] r show ?thesis by simp
qed

lemma run_append:
  "run inst cl self (cs1 @ cs2) p =
     (case run inst cl self cs1 p of
        (rs1, s1, p1) \<Rightarrow>
          (case run inst cl s1 cs2 p1 of (rs2, s2, p2) \<Rightarrow> (rs1 @ rs2, s2, p2)))"
  by (induction cs1 arbitrary: self p) (simp_all split: prod.splits)

lemma run_append_state:
  "fst (snd (run inst cl self (cs1 @ cs2) p)) =
     fst (snd (run inst cl (fst (snd (run inst cl self cs1 p))) cs2
       (snd (snd (run inst cl self cs1 p)))))"
  by (simp add: run_append split: prod.splits)

lemma state_of_ACTIVE: "state_of s = ACTIVE \<longleftrightarrow> logging s = Some True"
  by (auto simp: state_of_def split: option.splits bool.splits)

lemma state_of_DISABLED: "state_of s = DISABLED \<longleftrightarrow> logging s = Some False"
  by (auto simp: state_of_def split: option.splits bool.splits)

lemma state_of_UNINITIALIZED: "state_of s = UNINITIALIZED \<longleftrightarrow> logging s = None"
  by (auto simp: state_of_def split: option.splits bool.splits)

lemma call_method_set:
  assumes "experiment_attr self = Some h" and "bind_args (params m) args kw = Inr vs"
  shows "call_method cl m self args kw p =
     (case cm_method cl h m vs (library p) of
        (Inl e, l) \<Rightarrow> (Inl e, p\<lparr>library := l, calls := calls p @ [Call_method h m vs]\<rparr>)
      | (Inr u, l) \<Rightarrow>
          (Inr (), p\<lparr>library := (if m = End then l\<lparr>config_experiment := None\<rparr> else l),
                     calls := calls p @ [Call_method h m vs]\<rparr>))"
proof (cases "m = End")
  case True
  with assms(2) have "vs = []" using bind_args_length [OF assms(2)] by simp
  with True assms show ?thesis
    by (simp add: call_method_def method_body_End end_method_def call_experiment_set
        split: prod.splits sum.splits)
next
  case False
  from bind_args_length [OF assms(2)] have "length vs = length (params m)" .
  from method_body_other [OF this False]
  have "method_body cl m self vs p = call_experiment cl self m vs p" .
  with False assms show ?thesis
    by (simp add: call_method_def call_experiment_set split: prod.splits sum.splits)
qed

lemma activate_raises_Exception:
  assumes "fst (try_body cl self p) = Inl e" and "is_Exception e"
  shows "activate cl self p =
     (Inr (), self,
      (snd (snd (try_body cl self p)))
        \<lparr>warnings := warnings (snd (snd (try_body cl self p))) @ [Exception_warning e]\<rparr>)"
proof -
  obtain r s1 p1 where t: "try_body cl self p = (r, s1, p1)" by (cases "try_body cl self p")
  with assms(1) have r: "r = Inl e" by simp
  from try_body_cases [OF t] r have "s1 = self" by auto
  with t r assms(2) show ?thesis by (simp add: activate_def)
qed

lemma activate_raises_BaseException:
  assumes "fst (try_body cl self p) = Inl e" and "\<not> is_Exception e"
  shows "activate cl self p = (Inl e, self, snd (snd (try_body cl self p)))"
proof -
  obtain r s1 p1 where t: "try_body cl self p = (r, s1, p1)" by (cases "try_body cl self p")
  with assms(1) have r: "r = Inl e" by simp
  from try_body_cases [OF t] r have "s1 = self" by auto
  with t r assms(2) show ?thesis by (simp add: activate_def)
qed

lemma invoke_activated_sessions:
  assumes "logging self = None" and "invoke True cl self c p = (r, s1, p1)"
    and "logging s1 = Some True"
  shows "sessions_created p1 = Suc (sessions_created p)"
proof -
  obtain m args kw where c: "c = (m, args, kw)" by (cases c)
  obtain r0 s0 p0 where a: "activate cl (self\<lparr>logging := Some False\<rparr>) p = (r0, s0, p0)"
    by (cases "activate cl (self\<lparr>logging := Some False\<rparr>) p")
  obtain rt st pt where t: "try_body cl (self\<lparr>logging := Some False\<rparr>) p = (rt, st, pt)"
    by (cases "try_body cl (self\<lparr>logging := Some False\<rparr>) p")
  from assms(2) have s: "s1 = s0"
    unfolding c invoke_uninitialized [OF assms(1)] a by (auto split: sum.splits if_splits)
  from a t have st: "s0 = st" and pt: "sessions_created p0 = sessions_created pt"
    by (auto simp: activate_def sessions_created_def split: sum.splits if_splits)
  from try_body_cases [OF t] assms(3) s st
  have p0: "sessions_created p0 = Suc (sessions_created p)" using pt by auto
  have "sessions_created (snd (call_method cl m s0 args kw p0)) = sessions_created p0"
    using call_method_frame [of cl m s0 args kw p0] by (simp add: prod_eq_iff)
  with p0 assms(2) show ?thesis
    unfolding c invoke_uninitialized [OF assms(1)] a by (auto split: sum.splits if_splits)
qed

lemma run_sessions_le:
  "sessions_created (snd (snd (run inst cl self cs p))) \<le> Suc (sessions_created p)"
proof (induction cs arbitrary: self p)
  case Nil
  show ?case by simp
next
  case (Cons c cs)
  obtain r s1 p1 where i: "invoke inst cl self c p = (r, s1, p1)"
    by (cases "invoke inst cl self c p")
  obtain rs s2 p2 where r: "run inst cl s1 cs p1 = (rs, s2, p2)"
    by (cases "run inst cl s1 cs p1")
  show ?case
  proof (cases "logging s1 = None")
    case True
    have "logging self = None"
    proof (rule ccontr)
      assume n: "logging self \<noteq> None"
      from invoke_settled [OF n i] True n show False by simp
    qed
    moreover have "\<not> inst"
    proof
      assume "inst"
      with i have "invoke True cl self c p = (r, s1, p1)" by simp
      from invoke_logging_not_None [OF this] True show False by simp
    qed
    ultimately have "invoke inst cl self c p = (Inr (), self, p)"
      by (simp add: invoke_not_installed)
    with i have "s1 = self" "p1 = p" by simp_all
    with Cons.IH [of self p] i r show ?thesis by simp
  next
    case False
    from run_settled [OF False r] have "sessions_created p2 = sessions_created p1" by simp
    with invoke_sessions_le [OF i] i r show ?thesis by simp
  qed
qed

text \<open>
  An instance that is ACTIVE holds an experiment: the attribute is assigned before the
  flag is set, and nothing unsets it.
\<close>

lemma invoke_keeps_experiment:
  assumes "logging self = Some True \<longrightarrow> experiment_attr self \<noteq> None"
    and "invoke inst cl self c p = (r, self', p')"
  shows "logging self' = Some True \<longrightarrow> experiment_attr self' \<noteq> None"
proof (cases "logging self = None \<and> inst")
  case True
  then have u: "logging self = None" and inst: "inst = True" by simp_all
  obtain m args kw where c: "c = (m, args, kw)" by (cases c)
  obtain r1 s1 p1 where a: "activate cl (self\<lparr>logging := Some False\<rparr>) p = (r1, s1, p1)"
    by (cases "activate cl (self\<lparr>logging := Some False\<rparr>) p")
  from activate_cases [OF a]
  have "logging s1 = Some True \<longrightarrow> experiment_attr s1 \<noteq> None" by auto
  with assms(2) show ?thesis
    unfolding c inst invoke_uninitialized [OF u] a by (auto split: sum.splits if_splits)
next
  case False
  show ?thesis
  proof (cases "logging self = None")
    case True
    with False have "inst = False" by simp
    with True assms show ?thesis by (simp add: invoke_not_installed)
  next
    case False
    from invoke_settled [OF False assms(2)] assms(1) show ?thesis by simp
  qed
qed

lemma run_keeps_experiment:
  assumes "logging self = Some True \<longrightarrow> experiment_attr self \<noteq> None"
  shows "logging (fst (snd (run inst cl self cs p))) = Some True \<longrightarrow>
     experiment_attr (fst (snd (run inst cl self cs p))) \<noteq> None"
  using assms
proof (induction cs arbitrary: self p)
  case Nil
  then show ?case by simp
next
  case (Cons c cs)
  obtain r s1 p1 where i: "invoke inst cl self c p = (r, s1, p1)"
    by (cases "invoke inst cl self c p")
  from invoke_keeps_experiment [OF Cons.prems i]
  have "logging s1 = Some True \<longrightarrow> experiment_attr s1 \<noteq> None" .
  from Cons.IH [OF this, of p1]
  have "logging (fst (snd (run inst cl s1 cs p1))) = Some True \<longrightarrow>
     experiment_attr (fst (snd (run inst cl s1 cs p1))) \<noteq> None" .
  moreover have "fst (snd (run inst cl self (c # cs) p)) = fst (snd (run inst cl s1 cs p1))"
    using i by (simp split: prod.splits)
  ultimately show ?case by simp
qed

lemma active_has_experiment:
  assumes "CometLogger_init comet_installed comet kwargs = Inr self"
    and "state_of (fst (snd (run inst cl self cs p))) = ACTIVE"
  shows "\<exists>h. experiment_attr (fst (snd (run inst cl self cs p))) = Some h"
proof -
  from assms(1) have "logging self \<noteq> Some True"
    by (auto simp: CometLogger_init_def Let_def split: if_splits)
  then have "logging self = Some True \<longrightarrow> experiment_attr self \<noteq> None" by simp
  from run_keeps_experiment [OF this, of inst cl cs p] assms(2) show ?thesis
    by (simp add: state_of_ACTIVE)
qed

text \<open>
  The defining equations used to evaluate the model on concrete inputs.
\<close>

lemmas model_defs =
  CometLogger_init_def invoke_def requiresComet_def activate_def try_body_def call_method_def
  method_body_def end_method_def log_metric_def log_model_def log_image_def log_code_def
  log_asset_def add_tag_def call_experiment_def stub_client_def fresh_process_def
  sessions_created_def clash_warnings_def state_of_def

subsection \<open>Construction\<close>

text \<open>
  Against claim C9 as it is written (the dependency-missing error is the only error
  surfaced to the caller): a logger constructed with \<^verbatim>\<open>comet=True\<close> and \<^verbatim>\<open>comet_ml\<close>
  installed, on a client that never raises, is called as \<^verbatim>\<open>log_metric()\<close> with no
  arguments; the call activates the logger and ends with \<^verbatim>\<open>TypeError\<close>, which is not
  the dependency-missing exception.
\<close>

theorem runtime_error_reaches_caller:
  "CometLogger_init True True [(''project_name'', PyStr ''tracktor'')] = Inr demo_guard \<and>
   fst (run True (stub_client None None None) demo_guard [(Log_metric, [], [])] fresh_process) =
     [Inl (Exception ''TypeError'')] \<and>
   Exception ''TypeError'' \<noteq> Exception not_installed_message"
  by (simp add: model_defs demo_guard_def not_installed_message_def)

text \<open>
  Claim C9, amended. Constructing the logger with \<^verbatim>\<open>comet=True\<close> while \<^verbatim>\<open>comet_ml\<close>
  is not installed raises the dependency-missing exception, so that no instance
  results; and this is the only error that construction surfaces to the caller: the
  constructor raises in that case only, and that exception only. (Errors of later
  calls on a constructed logger are not excluded.)
\<close>

theorem construction_dependency_missing:
  "CometLogger_init False True kwargs = Inl (Exception not_installed_message) \<and>
   (\<forall>comet_installed comet kw e.
      (CometLogger_init comet_installed comet kw = Inl e) =
      (comet \<and> \<not> comet_installed \<and> e = Exception not_installed_message))"
  by (auto simp: CometLogger_init_def Let_def split: if_splits)

text \<open>
  Against claim C5 as it is written (the configuration is discarded): constructed with
  \<^verbatim>\<open>comet=False\<close> and an API key, the instance holds the API key in \<^verbatim>\<open>_comet_args\<close>.
\<close>

theorem disabled_construction_retains_configuration:
  "CometLogger_init True False [(''api_key'', PyStr ''k'')] =
     Inr \<lparr>logging = Some False, comet_args = [(''api_key'', PyStr ''k'')], experiment_attr = None\<rparr>"
  by (simp add: CometLogger_init_def Let_def)

text \<open>
  Claim C5, amended. Constructed with \<^verbatim>\<open>comet=False\<close>, the logger is DISABLED at once
  and keeps the forwarded configuration unchanged in \<^verbatim>\<open>_comet_args\<close>; the
  configuration is never passed on: whatever calls follow, \<^verbatim>\<open>comet_ml.Experiment\<close> is
  not called and the stored configuration stays as it is.
\<close>

theorem disabled_construction_stores_configuration:
  "\<exists>self. CometLogger_init comet_installed False kwargs = Inr self \<and>
     state_of self = DISABLED \<and> comet_args self = kwargs \<and>
     (\<forall>cl cs p.
        comet_args (fst (snd (run comet_installed cl self cs p))) = kwargs \<and>
        sessions_created (snd (snd (run comet_installed cl self cs p))) = sessions_created p)"
  by (simp add: CometLogger_init_def Let_def run_disabled state_of_def)

subsection \<open>A disabled logger\<close>

text \<open>
  Claim C6. On a logger constructed with \<^verbatim>\<open>comet=False\<close>, every sequence of calls of
  the public methods returns normally at each call and leaves the instance and the
  whole process as they were: the client is not called and nothing is logged, whatever
  the arguments are, well-formed or not (\<^verbatim>\<open>log_metric("x", float('nan'))\<close>, or a call
  with too few arguments).
\<close>

theorem disabled_calls_are_noops:
  "\<exists>self. CometLogger_init comet_installed False kwargs = Inr self \<and>
     (\<forall>cl cs p. run comet_installed cl self cs p = (replicate (length cs) (Inr ()), self, p)) \<and>
     (\<forall>cl p. invoke comet_installed cl self (Log_metric, [PyStr ''x'', PyNaN], []) p = (Inr (), self, p)) \<and>
     (\<forall>cl p. invoke comet_installed cl self (Log_metric, [], []) p = (Inr (), self, p))"
  by (simp add: CometLogger_init_def Let_def run_disabled invoke_disabled)

subsection \<open>The three states\<close>

text \<open>
  Claim C4. Take any instance, any client and any sequence of calls, and look at the
  state after a prefix \<open>cs1\<close> of the sequence and after the whole sequence
  \<open>cs1 @ cs2\<close>: if the state is DISABLED after the prefix it is not ACTIVE at the end,
  and if it is ACTIVE after the prefix it is not UNINITIALIZED at the end.
\<close>

theorem state_transitions_are_one_way:
  "(state_of (fst (snd (run comet_installed cl self cs1 p))) = DISABLED \<longrightarrow>
      state_of (fst (snd (run comet_installed cl self (cs1 @ cs2) p))) \<noteq> ACTIVE) \<and>
   (state_of (fst (snd (run comet_installed cl self cs1 p))) = ACTIVE \<longrightarrow>
      state_of (fst (snd (run comet_installed cl self (cs1 @ cs2) p))) \<noteq> UNINITIALIZED)"
  unfolding state_of_DISABLED state_of_ACTIVE state_of_UNINITIALIZED run_append_state
  by (auto simp: run_settled_self)

text \<open>
  Both cases on the stand-in client: a first call whose activation fails leaves the
  logger DISABLED, one whose activation succeeds leaves it ACTIVE, and four more calls
  follow.
\<close>

theorem state_transitions_are_one_way_witness:
  "state_of (fst (snd (run True (stub_client (Some (Exception ''no API key'')) None None) demo_guard
      [(Add_tag, [PyStr ''t''], [])] fresh_process))) = DISABLED \<and>
   state_of (fst (snd (run True (stub_client (Some (Exception ''no API key'')) None None) demo_guard
      ([(Add_tag, [PyStr ''t''], [])] @ demo_calls) fresh_process))) \<noteq> ACTIVE \<and>
   state_of (fst (snd (run True (stub_client None None None) demo_guard
      [(Add_tag, [PyStr ''t''], [])] fresh_process))) = ACTIVE \<and>
   state_of (fst (snd (run True (stub_client None None None) demo_guard
      ([(Add_tag, [PyStr ''t''], [])] @ demo_calls) fresh_process))) \<noteq> UNINITIALIZED"
proof -
  have 1: "state_of (fst (snd (run True (stub_client (Some (Exception ''no API key'')) None None)
      demo_guard [(Add_tag, [PyStr ''t''], [])] fresh_process))) = DISABLED"
    by (simp add: model_defs demo_guard_def)
  have 2: "state_of (fst (snd (run True (stub_client None None None) demo_guard
      [(Add_tag, [PyStr ''t''], [])] fresh_process))) = ACTIVE"
    by (simp add: model_defs demo_guard_def)
  from 1 2
    state_transitions_are_one_way [of True "stub_client (Some (Exception ''no API key'')) None None"
      demo_guard "[(Add_tag, [PyStr ''t''], [])]" fresh_process demo_calls]
    state_transitions_are_one_way [of True "stub_client None None None"
      demo_guard "[(Add_tag, [PyStr ''t''], [])]" fresh_process demo_calls]
  show ?thesis by blast
qed

subsection \<open>Activation\<close>

text \<open>
  Claim C2. Let the logger be constructed with \<^verbatim>\<open>comet=True\<close> and \<^verbatim>\<open>comet_ml\<close>
  installed, and let the activation attempted by the first call raise an exception
  (an instance of \<^verbatim>\<open>Exception\<close>, the class the handler names). Then every call of a
  non-empty sequence of calls returns normally; the first call leaves the state
  DISABLED and appends the exception to the sink as a warning; and the calls after it
  change nothing, neither the instance nor the process: the result is the same
  whatever calls follow the first one.
\<close>

theorem failed_activation_disables:
  assumes "CometLogger_init True True kwargs = Inr self"
    and "fst (try_body cl (self\<lparr>logging := Some False\<rparr>) p) = Inl (Exception msg)"
  shows "state_of self = UNINITIALIZED \<and>
     run True cl self (c # cs) p =
       (replicate (Suc (length cs)) (Inr ()),
        self\<lparr>logging := Some False\<rparr>,
        (snd (snd (try_body cl (self\<lparr>logging := Some False\<rparr>) p)))
          \<lparr>warnings := warnings (snd (snd (try_body cl (self\<lparr>logging := Some False\<rparr>) p)))
             @ [Exception_warning (Exception msg)]\<rparr>) \<and>
     state_of (self\<lparr>logging := Some False\<rparr>) = DISABLED"
proof -
  from assms(1) have u: "logging self = None"
    by (auto simp: CometLogger_init_def Let_def split: if_splits)
  obtain m args kw where c: "c = (m, args, kw)" by (cases c)
  have a: "activate cl (self\<lparr>logging := Some False\<rparr>) p =
     (Inr (), self\<lparr>logging := Some False\<rparr>,
      (snd (snd (try_body cl (self\<lparr>logging := Some False\<rparr>) p)))
        \<lparr>warnings := warnings (snd (snd (try_body cl (self\<lparr>logging := Some False\<rparr>) p)))
           @ [Exception_warning (Exception msg)]\<rparr>)"
    using activate_raises_Exception [OF assms(2)] by simp
  have i: "invoke True cl self c p =
     (Inr (), self\<lparr>logging := Some False\<rparr>,
      (snd (snd (try_body cl (self\<lparr>logging := Some False\<rparr>) p)))
        \<lparr>warnings := warnings (snd (snd (try_body cl (self\<lparr>logging := Some False\<rparr>) p)))
           @ [Exception_warning (Exception msg)]\<rparr>)"
    unfolding c invoke_uninitialized [OF u] a by simp
  show ?thesis
    using u by (simp add: i run_disabled state_of_UNINITIALIZED state_of_DISABLED)
qed

text \<open>
  On the stand-in client with a failing \<^verbatim>\<open>init\<close>: five calls, five normal returns,
  one warning, one call of the client.
\<close>

theorem failed_activation_disables_witness:
  "CometLogger_init True True [(''project_name'', PyStr ''tracktor'')] = Inr demo_guard \<and>
   fst (try_body (stub_client (Some (Exception ''no API key'')) None None)
     (demo_guard\<lparr>logging := Some False\<rparr>) fresh_process) = Inl (Exception ''no API key'') \<and>
   run True (stub_client (Some (Exception ''no API key'')) None None) demo_guard
     ((Log_metric, [PyStr ''loss'', PyInt 1], []) # demo_calls) fresh_process =
     ([Inr (), Inr (), Inr (), Inr (), Inr ()],
      demo_guard\<lparr>logging := Some False\<rparr>,
      fresh_process\<lparr>warnings := [Exception_warning (Exception ''no API key'')],
        calls := [Call_init]\<rparr>)"
proof -
  let ?cl = "stub_client (Some (Exception ''no API key'')) None None"
  have 1: "CometLogger_init True True [(''project_name'', PyStr ''tracktor'')] = Inr demo_guard"
    by (simp add: CometLogger_init_def demo_guard_def)
  have 2: "fst (try_body ?cl (demo_guard\<lparr>logging := Some False\<rparr>) fresh_process) =
      Inl (Exception ''no API key'')"
    by (simp add: try_body_def stub_client_def fresh_process_def)
  have 3: "snd (snd (try_body ?cl (demo_guard\<lparr>logging := Some False\<rparr>) fresh_process)) =
      fresh_process\<lparr>calls := [Call_init]\<rparr>"
    by (simp add: try_body_def stub_client_def fresh_process_def)
  from failed_activation_disables [OF 1 2, of "(Log_metric, [PyStr ''loss'', PyInt 1], [])" demo_calls]
    1 2
  show ?thesis
    unfolding 3 by (simp add: demo_calls_def fresh_process_def)
qed

text \<open>
  What the handler does not catch: an exception that is not an instance of
  \<^verbatim>\<open>Exception\<close> (a \<^verbatim>\<open>KeyboardInterrupt\<close> during \<^verbatim>\<open>comet_ml.init()\<close>) leaves the
  wrapper, with the logger DISABLED and no warning logged.
\<close>

lemma activation_interrupt_propagates:
  assumes "logging self = None"
    and "fst (try_body cl (self\<lparr>logging := Some False\<rparr>) p) = Inl (BaseException c)"
  shows "invoke True cl self call p =
     (Inl (BaseException c), self\<lparr>logging := Some False\<rparr>,
      snd (snd (try_body cl (self\<lparr>logging := Some False\<rparr>) p)))"
proof -
  obtain m args kw where c: "call = (m, args, kw)" by (cases call)
  have "\<not> is_Exception (BaseException c)" by simp
  from activate_raises_BaseException [OF assms(2) this] show ?thesis
    unfolding c invoke_uninitialized [OF assms(1)] by simp
qed

text \<open>
  Claim C3. Let the logger be constructed with \<^verbatim>\<open>comet=True\<close> and \<^verbatim>\<open>comet_ml\<close>
  installed, and let the first call leave it ACTIVE (the first activation succeeds).
  Then, however many calls follow, \<^verbatim>\<open>comet_ml.Experiment\<close> has been called exactly once
  more than before the first call. And whatever the client does, over any sequence of
  calls on the instance \<^verbatim>\<open>comet_ml.Experiment\<close> is called at most once.
\<close>

theorem one_session_per_guard:
  assumes "CometLogger_init True True kwargs = Inr self"
    and "state_of (fst (snd (invoke True cl self c p))) = ACTIVE"
  shows "sessions_created (snd (snd (run True cl self (c # cs) p))) = Suc (sessions_created p) \<and>
     (\<forall>cl' cs' p'. sessions_created (snd (snd (run True cl' self cs' p'))) \<le> Suc (sessions_created p'))"
proof -
  from assms(1) have u: "logging self = None"
    by (auto simp: CometLogger_init_def Let_def split: if_splits)
  obtain r s1 p1 where i: "invoke True cl self c p = (r, s1, p1)"
    by (cases "invoke True cl self c p")
  with assms(2) have a: "logging s1 = Some True" by (simp add: state_of_ACTIVE)
  from invoke_activated_sessions [OF u i a] have 1: "sessions_created p1 = Suc (sessions_created p)" .
  obtain rs s2 p2 where r: "run True cl s1 cs p1 = (rs, s2, p2)"
    by (cases "run True cl s1 cs p1")
  from a have "logging s1 \<noteq> None" by simp
  from run_settled [OF this r] 1 i r
  have "sessions_created (snd (snd (run True cl self (c # cs) p))) = Suc (sessions_created p)"
    by simp
  then show ?thesis by (simp add: run_sessions_le)
qed

text \<open>
  On the stand-in client: five calls, one experiment.
\<close>

theorem one_session_per_guard_witness:
  "CometLogger_init True True [(''project_name'', PyStr ''tracktor'')] = Inr demo_guard \<and>
   state_of (fst (snd (invoke True (stub_client None None None) demo_guard
     (Add_tag, [PyStr ''t''], []) fresh_process))) = ACTIVE \<and>
   sessions_created (snd (snd (run True (stub_client None None None) demo_guard
     ((Add_tag, [PyStr ''t''], []) # demo_calls) fresh_process))) = Suc 0"
proof -
  have 1: "CometLogger_init True True [(''project_name'', PyStr ''tracktor'')] = Inr demo_guard"
    by (simp add: CometLogger_init_def demo_guard_def)
  have 2: "state_of (fst (snd (invoke True (stub_client None None None) demo_guard
     (Add_tag, [PyStr ''t''], []) fresh_process))) = ACTIVE"
    by (simp add: model_defs demo_guard_def state_of_def)
  have 3: "sessions_created fresh_process = 0"
    by (simp add: sessions_created_def fresh_process_def)
  from one_session_per_guard [OF 1 2, of demo_calls] 1 2 show ?thesis
    unfolding 3 by blast
qed

text \<open>
  Claim C7. Let a call find the logger UNINITIALIZED, with \<^verbatim>\<open>comet_ml\<close> installed, and
  let \<^verbatim>\<open>comet_ml.get_global_experiment()\<close> return an experiment (so \<^verbatim>\<open>comet_ml.init()\<close>
  returned before it). Then the call adds exactly one clash warning to the sink, and
  the activation goes on to \<^verbatim>\<open>comet_ml.Experiment\<close>: when that returns a handle the
  logger is ACTIVE and holds the handle; when it raises the logger is DISABLED.
\<close>

theorem clash_warning_once:
  assumes "state_of self = UNINITIALIZED"
    and "cm_init cl (library p) = (Inr (), l1)"
    and "cm_get_global_experiment cl l1 = (Inr (Some g), l2)"
  shows "clash_warnings (snd (snd (invoke True cl self c p))) = Suc (clash_warnings p) \<and>
     (case cm_Experiment cl (comet_args self) l2 of
        (Inr h, l3) \<Rightarrow>
          state_of (fst (snd (invoke True cl self c p))) = ACTIVE \<and>
          experiment_attr (fst (snd (invoke True cl self c p))) = Some h
      | (Inl e, l3) \<Rightarrow> state_of (fst (snd (invoke True cl self c p))) = DISABLED)"
proof -
  from assms(1) have u: "logging self = None" by (simp add: state_of_UNINITIALIZED)
  obtain m args kw where c: "c = (m, args, kw)" by (cases c)
  obtain r4 l4 where e: "cm_Experiment cl (comet_args self) l2 = (r4, l4)"
    by (cases "cm_Experiment cl (comet_args self) l2")
  let ?p4 = "p\<lparr>library := l4, warnings := warnings p @ [Clash_warning],
    calls := calls p @ [Call_init, Call_get_global_experiment, Call_Experiment (comet_args self)]\<rparr>"
  have t: "try_body cl (self\<lparr>logging := Some False\<rparr>) p =
      (case r4 of
         Inl x \<Rightarrow> (Inl x, self\<lparr>logging := Some False\<rparr>, ?p4)
       | Inr h \<Rightarrow> (Inr (), self\<lparr>experiment_attr := Some h, logging := Some True\<rparr>, ?p4))"
    using assms(2,3) e by (simp add: try_body_def split: sum.splits)
  have w: "clash_warnings (snd (call_method cl m s args kw q)) = clash_warnings q" for s q
    using call_method_frame [of cl m s args kw q] by (simp add: prod_eq_iff clash_warnings_def)
  show ?thesis
  proof (cases r4)
    case (Inl x)
    with t show ?thesis
      unfolding c invoke_uninitialized [OF u] e
      by (simp add: activate_def clash_warnings_def state_of_DISABLED)
  next
    case (Inr h)
    with t show ?thesis
      unfolding c invoke_uninitialized [OF u] e
      by (simp add: activate_def w state_of_ACTIVE) (simp add: clash_warnings_def)
  qed
qed

text \<open>
  On the stand-in client, in a process where experiment 7 is the global one: one
  clash warning, and the logger is ACTIVE with the new experiment 8.
\<close>

theorem clash_warning_once_witness:
  "state_of demo_guard = UNINITIALIZED \<and>
   cm_init (stub_client None None None) (library clash_process) = (Inr (), library clash_process) \<and>
   cm_get_global_experiment (stub_client None None None) (library clash_process) =
     (Inr (Some 7), library clash_process) \<and>
   clash_warnings (snd (snd (invoke True (stub_client None None None) demo_guard
     (Add_tag, [PyStr ''t''], []) clash_process))) = Suc 0 \<and>
   state_of (fst (snd (invoke True (stub_client None None None) demo_guard
     (Add_tag, [PyStr ''t''], []) clash_process))) = ACTIVE \<and>
   experiment_attr (fst (snd (invoke True (stub_client None None None) demo_guard
     (Add_tag, [PyStr ''t''], []) clash_process))) = Some 8"
proof -
  let ?cl = "stub_client None None None"
  have 1: "state_of demo_guard = UNINITIALIZED"
    by (simp add: demo_guard_def state_of_def)
  have 2: "cm_init ?cl (library clash_process) = (Inr (), library clash_process)"
    by (simp add: stub_client_def)
  have 3: "cm_get_global_experiment ?cl (library clash_process) =
      (Inr (Some 7), library clash_process)"
    by (simp add: stub_client_def clash_process_def)
  have 4: "cm_Experiment ?cl (comet_args demo_guard) (library clash_process) =
      (Inr 8, \<lparr>config_experiment = Some 8, internals = 9\<rparr>)"
    by (simp add: stub_client_def clash_process_def)
  have 5: "clash_warnings clash_process = 0"
    by (simp add: clash_warnings_def clash_process_def)
  from clash_warning_once [OF 1 2 3, of "(Add_tag, [PyStr ''t''], [])"] 1 2 3
  show ?thesis unfolding 4 5 by simp
qed

subsection \<open>Calls on an active logger\<close>

text \<open>
  Against claim C1 as it is written (the exception of a logging call is caught and
  logged): on a client whose methods raise, a first call \<^verbatim>\<open>log_metric\<close> activates the
  logger and ends with the client's exception; the logger is then ACTIVE, and the
  next call, \<^verbatim>\<open>add_tag\<close>, ends with the client's exception too; the sink stays empty.
\<close>

theorem active_call_exception_escapes:
  "fst (run True (stub_client None None (Some (Exception ''boom''))) demo_guard
     [(Log_metric, [PyStr ''loss'', PyInt 1], []), (Add_tag, [PyStr ''t''], [])] fresh_process) =
     [Inl (Exception ''boom''), Inl (Exception ''boom'')] \<and>
   state_of (fst (snd (run True (stub_client None None (Some (Exception ''boom''))) demo_guard
     [(Log_metric, [PyStr ''loss'', PyInt 1], [])] fresh_process))) = ACTIVE \<and>
   warnings (snd (snd (run True (stub_client None None (Some (Exception ''boom''))) demo_guard
     [(Log_metric, [PyStr ''loss'', PyInt 1], []), (Add_tag, [PyStr ''t''], [])] fresh_process))) = []"
  by (simp add: model_defs demo_guard_def)

text \<open>
  Claim C1, amended. When a public method is called on an ACTIVE logger and the
  client's method raises, the exception propagates to the caller as it is: nothing
  is caught and nothing is logged, the logger stays ACTIVE, and the process changes
  only by what the client's call did. (Only the exceptions of the activation are
  caught and logged.)
\<close>

theorem active_call_exception_propagates:
  assumes "state_of self = ACTIVE" and "experiment_attr self = Some h"
    and "bind_args (params m) args kw = Inr vs"
    and "fst (cm_method cl h m vs (library p)) = Inl e"
  shows "invoke comet_installed cl self (m, args, kw) p =
     (Inl e, self,
      p\<lparr>library := snd (cm_method cl h m vs (library p)),
        calls := calls p @ [Call_method h m vs]\<rparr>)"
proof -
  from assms(1) have a: "logging self = Some True" by (simp add: state_of_ACTIVE)
  obtain r l where cm: "cm_method cl h m vs (library p) = (r, l)"
    by (cases "cm_method cl h m vs (library p)")
  with assms(4) have r: "r = Inl e" by simp
  show ?thesis
    unfolding invoke_active [OF a] call_method_set [OF assms(2,3)] cm r by simp
qed

text \<open>
  On the stand-in client with failing methods.
\<close>

theorem active_call_exception_propagates_witness:
  "state_of \<lparr>logging = Some True, comet_args = [], experiment_attr = Some 0\<rparr> = ACTIVE \<and>
   bind_args (params Log_metric) [PyStr ''loss'', PyInt 1] [] =
     Inr [PyStr ''loss'', PyInt 1, PyNone, PyNone, PyBool True] \<and>
   fst (cm_method (stub_client None None (Some (Exception ''boom''))) 0 Log_metric
     [PyStr ''loss'', PyInt 1, PyNone, PyNone, PyBool True] (library fresh_process)) =
     Inl (Exception ''boom'') \<and>
   invoke True (stub_client None None (Some (Exception ''boom'')))
     \<lparr>logging = Some True, comet_args = [], experiment_attr = Some 0\<rparr>
     (Log_metric, [PyStr ''loss'', PyInt 1], []) fresh_process =
     (Inl (Exception ''boom''),
      \<lparr>logging = Some True, comet_args = [], experiment_attr = Some 0\<rparr>,
      fresh_process\<lparr>calls := [Call_method 0 Log_metric
        [PyStr ''loss'', PyInt 1, PyNone, PyNone, PyBool True]]\<rparr>)"
proof -
  let ?g = "\<lparr>logging = Some True, comet_args = [], experiment_attr = Some 0\<rparr>"
  let ?cl = "stub_client None None (Some (Exception ''boom''))"
  let ?vs = "[PyStr ''loss'', PyInt 1, PyNone, PyNone, PyBool True]"
  have 1: "state_of ?g = ACTIVE" by (simp add: state_of_def)
  have 2: "experiment_attr ?g = Some 0" by simp
  have 3: "bind_args (params Log_metric) [PyStr ''loss'', PyInt 1] [] = Inr ?vs" by simp
  have 4: "fst (cm_method ?cl 0 Log_metric ?vs (library fresh_process)) = Inl (Exception ''boom'')"
    by (simp add: stub_client_def)
  from active_call_exception_propagates [OF 1 2 3 4, of True] 1 3 4
  show ?thesis by (simp add: stub_client_def fresh_process_def)
qed

text \<open>
  Claim C8. On an ACTIVE logger, \<^verbatim>\<open>end()\<close> calls the method \<^verbatim>\<open>end\<close> of the
  experiment the logger holds, and nothing else of the client; and when that call
  returns, \<^verbatim>\<open>end()\<close> sets \<^verbatim>\<open>comet_ml.config.experiment\<close> to \<^verbatim>\<open>None\<close> and returns,
  the logger itself unchanged.
\<close>

theorem end_clears_global_experiment:
  assumes "state_of self = ACTIVE" and "experiment_attr self = Some h"
  shows "calls (snd (snd (invoke comet_installed cl self (End, [], []) p))) =
       calls p @ [Call_method h End []] \<and>
     (\<forall>l. cm_method cl h End [] (library p) = (Inr (), l) \<longrightarrow>
        invoke comet_installed cl self (End, [], []) p =
          (Inr (), self,
           p\<lparr>library := l\<lparr>config_experiment := None\<rparr>,
             calls := calls p @ [Call_method h End []]\<rparr>) \<and>
        config_experiment
          (library (snd (snd (invoke comet_installed cl self (End, [], []) p)))) = None)"
proof -
  from assms(1) have a: "logging self = Some True" by (simp add: state_of_ACTIVE)
  have b: "bind_args (params End) [] [] = Inr []" by simp
  show ?thesis
    unfolding invoke_active [OF a] call_method_set [OF assms(2) b]
    by (auto split: prod.splits sum.splits)
qed

text \<open>
  On the stand-in client, with experiment 8 as the logger's and the global one.
\<close>

theorem end_clears_global_experiment_witness:
  "state_of \<lparr>logging = Some True, comet_args = [], experiment_attr = Some 8\<rparr> = ACTIVE \<and>
   cm_method (stub_client None None None) 8 End []
     \<lparr>config_experiment = Some 8, internals = 9\<rparr> =
     (Inr (), \<lparr>config_experiment = Some 8, internals = 9\<rparr>) \<and>
   invoke True (stub_client None None None)
     \<lparr>logging = Some True, comet_args = [], experiment_attr = Some 8\<rparr> (End, [], [])
     \<lparr>library = \<lparr>config_experiment = Some 8, internals = 9\<rparr>, warnings = [], calls = []\<rparr> =
     (Inr (), \<lparr>logging = Some True, comet_args = [], experiment_attr = Some 8\<rparr>,
      \<lparr>library = \<lparr>config_experiment = None, internals = 9\<rparr>, warnings = [],
         calls = [Call_method 8 End []]\<rparr>)"
proof -
  let ?g = "\<lparr>logging = Some True, comet_args = [], experiment_attr = Some 8\<rparr>"
  let ?p = "\<lparr>library = \<lparr>config_experiment = Some 8, internals = 9::nat\<rparr>, warnings = [], calls = []\<rparr>"
  have 1: "state_of ?g = ACTIVE" by (simp add: state_of_def)
  have 2: "experiment_attr ?g = Some 8" by simp
  have 3: "cm_method (stub_client None None None) 8 End [] (library ?p) =
      (Inr (), \<lparr>config_experiment = Some 8, internals = 9\<rparr>)"
    by (simp add: stub_client_def)
  from end_clears_global_experiment [OF 1 2, of True "stub_client None None None" ?p] 1 3
  show ?thesis by simp
qed



end
